theory Spec2Isabelle
  imports Complex_Main "HOL-Library.Multiset"
begin

section \<open>Tables\<close>

text \<open>
  The program (\<^verbatim>\<open>app.py\<close>) keeps its data in two pandas tables, one of workout
  entries and one of nutrition entries.  A table is modelled row by row: the ordered
  column names and, for every row, one cell per column.  A cell is absent (pandas'
  \<^verbatim>\<open>None\<close>, \<^verbatim>\<open>NaN\<close> and \<^verbatim>\<open>NaT\<close>, which the program never tells apart), a number,
  a text or a timestamp.  Numbers are exact rationals: binary floating point is
  idealised away.  A timestamp counts nanoseconds since 1970-01-01 00:00, as a
  pandas \<^verbatim>\<open>Timestamp\<close> does.
\<close>

datatype cell = NA | Num rat | Str string | Stamp int

datatype error = KeyError | TypeError | ValueError | IndexError | EmptyDataError | OSError

record dataframe =
  columns :: "string list"
  rows :: "cell list list"

text \<open>Errors are values; \<open>bind_err\<close> runs the next step unless an exception was raised.\<close>

definition bind_err :: "error + 'a \<Rightarrow> ('a \<Rightarrow> error + 'b) \<Rightarrow> error + 'b" where
  "bind_err m f = (case m of Inl e \<Rightarrow> Inl e | Inr x \<Rightarrow> f x)"

text \<open>
  Every table pandas builds is rectangular and, read from a file, has its column names
  pairwise distinct (the reader renames a repeated name apart).
\<close>

definition well_formed :: "dataframe \<Rightarrow> bool" where
  "well_formed df \<longleftrightarrow>
     distinct (columns df) \<and> list_all (\<lambda>r. length r = length (columns df)) (rows df)"

text \<open>\<^verbatim>\<open>df.empty\<close>: one of the two axes has length zero.\<close>

definition df_empty :: "dataframe \<Rightarrow> bool" where
  "df_empty df \<longleftrightarrow> rows df = [] \<or> columns df = []"

text \<open>The cell of row \<open>r\<close> under column \<open>c\<close>, for a row laid out along \<open>cols\<close>.\<close>

definition getitem :: "string list \<Rightarrow> string \<Rightarrow> cell list \<Rightarrow> cell" where
  "getitem cols c r = (case map_of (zip cols r) c of Some v \<Rightarrow> v | None \<Rightarrow> NA)"

text \<open>\<^verbatim>\<open>df[col]\<close> as a column of values; a name that is no column raises \<^verbatim>\<open>KeyError\<close>.\<close>

definition column :: "dataframe \<Rightarrow> string \<Rightarrow> error + cell list" where
  "column df c =
     (if c \<in> set (columns df) then Inr (map (getitem (columns df) c) (rows df))
      else Inl KeyError)"

fun set_cell :: "string list \<Rightarrow> string \<Rightarrow> cell \<Rightarrow> cell list \<Rightarrow> cell list" where
  "set_cell (k # ks) c v (x # xs) = (if k = c then v # xs else x # set_cell ks c v xs)"
| "set_cell _ _ _ xs = xs"

text \<open>
  \<^verbatim>\<open>df[col] = values\<close>, one value per row: an existing column is overwritten in place,
  a new one is appended on the right.
\<close>

definition setitem :: "dataframe \<Rightarrow> string \<Rightarrow> cell list \<Rightarrow> dataframe" where
  "setitem df c vs =
     (if c \<in> set (columns df)
      then df\<lparr>rows := map2 (\<lambda>r v. set_cell (columns df) c v r) (rows df) vs\<rparr>
      else df\<lparr>columns := columns df @ [c], rows := map2 (\<lambda>r v. r @ [v]) (rows df) vs\<rparr>)"

text \<open>\<^verbatim>\<open>df[col] = None\<close>: the scalar is broadcast to every row.\<close>

definition setitem_none :: "dataframe \<Rightarrow> string \<Rightarrow> dataframe" where
  "setitem_none df c = setitem df c (replicate (length (rows df)) NA)"

text \<open>
  The loop of \<^verbatim>\<open>load_csv\<close> (and of both import branches):
  \<^verbatim>\<open>for col in columns: if col not in df.columns: df[col] = None\<close>.
\<close>

fun backfill :: "dataframe \<Rightarrow> string list \<Rightarrow> dataframe" where
  "backfill df [] = df"
| "backfill df (col # cols) =
     backfill (if col \<notin> set (columns df) then setitem_none df col else df) cols"

text \<open>\<^verbatim>\<open>df[columns]\<close>: the listed columns in the listed order; a missing one raises.\<close>

definition select_columns :: "dataframe \<Rightarrow> string list \<Rightarrow> error + dataframe" where
  "select_columns df cols =
     (if set cols \<subseteq> set (columns df)
      then Inr \<lparr>columns = cols,
                rows = map (\<lambda>r. map (\<lambda>c. getitem (columns df) c r) cols) (rows df)\<rparr>
      else Inl KeyError)"

text \<open>Backfill, then project: what the loader and the importer do to a parsed file.\<close>

definition coerce :: "dataframe \<Rightarrow> string list \<Rightarrow> error + dataframe" where
  "coerce df cols = select_columns (backfill df cols) cols"

definition workout_cols :: "string list" where
  "workout_cols = [''date'', ''exercise'', ''sets'', ''reps'', ''weight'', ''notes'']"


section \<open>Files\<close>

text \<open>
  A delimited file is modelled after quoting and line splitting: the header fields and
  the fields of each record, as texts.  The header holds the column names as the reader
  assigns them.  How pandas writes a number or a timestamp as text and which texts it
  reads as numbers is library behaviour the program does not set; it is a parameter.
\<close>

record csv =
  header :: "string list"
  records :: "string list list"

record codec =
  show_num :: "rat \<Rightarrow> string"
  show_stamp :: "int \<Rightarrow> string"
  parse_num :: "string \<Rightarrow> rat option"

datatype disk_file = Unreadable | Content csv

type_synonym filesystem = "string \<Rightarrow> disk_file option"

text \<open>The texts \<^verbatim>\<open>read_csv\<close> reads as a missing value by default; the empty field is one.\<close>

definition na_values :: "string list" where
  "na_values =
     ['''', ''#N/A'', ''#N/A N/A'', ''#NA'', ''-1.#IND'', ''-1.#QNAN'', ''-NaN'', ''-nan'',
      ''1.#IND'', ''1.#QNAN'', ''<NA>'', ''N/A'', ''NA'', ''NULL'', ''NaN'', ''None'',
      ''n/a'', ''nan'', ''null'']"



text \<open>
  \<^verbatim>\<open>read_csv\<close> decides the type of a column from all of its fields: when every field
  is missing or reads as a number the column is numeric, otherwise its fields stay
  texts.  A record shorter than the header is filled with missing fields, a longer one
  is a parse error, and a file without a header row has no columns to parse.
\<close>

definition pad :: "nat \<Rightarrow> string list \<Rightarrow> string list" where
  "pad n r = r @ replicate (n - length r) ''''"

definition numeric_column :: "codec \<Rightarrow> string list list \<Rightarrow> nat \<Rightarrow> bool" where
  "numeric_column cd recs j \<longleftrightarrow>
     list_all (\<lambda>r. r ! j \<in> set na_values \<or> parse_num cd (r ! j) \<noteq> None) recs"

definition read_field :: "codec \<Rightarrow> bool \<Rightarrow> string \<Rightarrow> cell" where
  "read_field cd numeric f =
     (if f \<in> set na_values then NA
      else if numeric then (case parse_num cd f of Some x \<Rightarrow> Num x | None \<Rightarrow> Str f)
      else Str f)"

definition read_csv :: "codec \<Rightarrow> disk_file \<Rightarrow> error + dataframe" where
  "read_csv cd f =
     (case f of
        Unreadable \<Rightarrow> Inl OSError
      | Content c \<Rightarrow>
          if header c = [] then Inl EmptyDataError
          else if list_ex (\<lambda>r. length (header c) < length r) (records c) then Inl ValueError
          else
            let n = length (header c);
                recs = map (pad n) (records c)
            in Inr \<lparr>columns = header c,
                    rows = map (\<lambda>r. map (\<lambda>j. read_field cd (numeric_column cd recs j) (r ! j))
                                          [0..<n]) recs\<rparr>)"

text \<open>
  \<^verbatim>\<open>load_csv(path, columns)\<close> and \<^verbatim>\<open>save_csv(df, path)\<close>.  \<^verbatim>\<open>path.exists()\<close> is
  whether the file system holds a file under the path.
\<close>

definition load_csv :: "codec \<Rightarrow> filesystem \<Rightarrow> string \<Rightarrow> string list \<Rightarrow> error + dataframe" where
  "load_csv cd fs path cols =
     (case fs path of
        Some f \<Rightarrow> bind_err (read_csv cd f) (\<lambda>df. coerce df cols)
      | None \<Rightarrow> Inr \<lparr>columns = cols, rows = []\<rparr>)"


definition WORKOUTS_FILE :: string where
  "WORKOUTS_FILE = ''workouts.csv''"

definition NUTRITION_FILE :: string where
  "NUTRITION_FILE = ''nutrition.csv''"








section \<open>Dates\<close>

text \<open>
  \<^verbatim>\<open>pd.to_datetime\<close> turns a column into timestamps.  An absent value stays absent and
  a timestamp stays what it is; for every other value the library's permissive parser
  decides, and it may look at the whole column to settle on a format.  The parser is a
  parameter: \<open>parse col v\<close> is the instant it reads from \<open>v\<close> in the column \<open>col\<close>, if
  any.  With \<^verbatim>\<open>errors='coerce'\<close> a value it cannot read becomes absent, without it
  the call raises.
\<close>

type_synonym date_parser = "cell list \<Rightarrow> cell \<Rightarrow> int option"

datatype errors_mode = Raise | Coerce

definition to_datetime_cell :: "date_parser \<Rightarrow> errors_mode \<Rightarrow> cell list \<Rightarrow> cell \<Rightarrow> error + cell" where
  "to_datetime_cell parse mode col v =
     (case v of
        NA \<Rightarrow> Inr NA
      | Stamp t \<Rightarrow> Inr (Stamp t)
      | _ \<Rightarrow> (case parse col v of
                Some t \<Rightarrow> Inr (Stamp t)
              | None \<Rightarrow> (case mode of Coerce \<Rightarrow> Inr NA | Raise \<Rightarrow> Inl ValueError)))"

fun traverse :: "('a \<Rightarrow> error + 'b) \<Rightarrow> 'a list \<Rightarrow> error + 'b list" where
  "traverse f [] = Inr []"
| "traverse f (x # xs) =
     bind_err (f x) (\<lambda>y. bind_err (traverse f xs) (\<lambda>ys. Inr (y # ys)))"

definition to_datetime :: "date_parser \<Rightarrow> errors_mode \<Rightarrow> cell list \<Rightarrow> error + cell list" where
  "to_datetime parse mode col = traverse (to_datetime_cell parse mode col) col"

text \<open>\<^verbatim>\<open>.dt.normalize()\<close>: every timestamp is moved back to the midnight of its day.\<close>

definition ns_per_day :: int where
  "ns_per_day = 86400000000000"

definition day_of :: "int \<Rightarrow> int" where
  "day_of t = t div ns_per_day"





text \<open>
  The calendar.  Day 0 is Thursday 1970-01-01.  A weekly period (\<^verbatim>\<open>to_period("W")\<close>)
  runs from Monday to Sunday and a monthly one over a calendar month; \<^verbatim>\<open>start_time\<close>
  is the first midnight of the period.  Year, month and day of a day number follow
  the proleptic Gregorian calendar, counted in eras of 400 years from 0000-03-01.
\<close>

definition weekday :: "int \<Rightarrow> int" where
  "weekday d = (d + 3) mod 7"

definition week_start :: "int \<Rightarrow> int" where
  "week_start t = (day_of t - weekday (day_of t)) * ns_per_day"

definition civil_from_days :: "int \<Rightarrow> int \<times> int \<times> int" where
  "civil_from_days z =
     (let z1 = z + 719468;
          era = z1 div 146097;
          doe = z1 mod 146097;
          yoe = (doe - doe div 1460 + doe div 36524 - doe div 146096) div 365;
          doy = doe - (365 * yoe + yoe div 4 - yoe div 100);
          mp = (5 * doy + 2) div 153;
          d = doy - (153 * mp + 2) div 5 + 1;
          m = (if mp < 10 then mp + 3 else mp - 9);
          y = yoe + era * 400 + (if m \<le> 2 then 1 else 0)
      in (y, m, d))"

definition days_from_civil :: "int \<Rightarrow> int \<Rightarrow> int \<Rightarrow> int" where
  "days_from_civil y m d =
     (let y1 = (if m \<le> 2 then y - 1 else y);
          era = y1 div 400;
          yoe = y1 mod 400;
          doy = (153 * (if 2 < m then m - 3 else m + 9) + 2) div 5 + d - 1;
          doe = yoe * 365 + yoe div 4 - yoe div 100 + doy
      in era * 146097 + doe - 719468)"

definition month_start :: "int \<Rightarrow> int" where
  "month_start t =
     (case civil_from_days (day_of t) of (y, m, d) \<Rightarrow> days_from_civil y m 1 * ns_per_day)"

text \<open>The timestamp of the midnight that begins a calendar day.\<close>

definition timestamp :: "int \<Rightarrow> int \<Rightarrow> int \<Rightarrow> int" where
  "timestamp y m d = days_from_civil y m d * ns_per_day"

text \<open>
  The period start of every date of a column; an absent date has an absent period.
\<close>

fun period_of :: "(int \<Rightarrow> int) \<Rightarrow> cell \<Rightarrow> cell" where
  "period_of start (Stamp t) = Stamp (start t)"
| "period_of start v = NA"

section \<open>Row operations\<close>

text \<open>
  \<^verbatim>\<open>sort_values(col, ascending)\<close> on a column of timestamps, the only kind of column
  the pages sort by (\<^verbatim>\<open>ensure_date_col\<close> has made the date column one): rows with an
  absent key go last in their given order; the others are ordered by key, rows with
  equal keys staying in their given order (pandas' default sort promises no order
  among equal keys; the model fixes this one).  Descending order is obtained as pandas
  does it: reverse, sort ascending, reverse.  A column that holds anything else than
  timestamps and absent values is not a datetime column; comparing across kinds
  raises \<^verbatim>\<open>TypeError\<close>.
\<close>

fun is_datetime :: "cell \<Rightarrow> bool" where
  "is_datetime NA = True"
| "is_datetime (Stamp t) = True"
| "is_datetime _ = False"

fun stamp_key :: "cell \<Rightarrow> int" where
  "stamp_key (Stamp t) = t"
| "stamp_key _ = 0"

definition sort_values :: "dataframe \<Rightarrow> string \<Rightarrow> bool \<Rightarrow> error + dataframe" where
  "sort_values df col ascending =
     (if col \<notin> set (columns df) then Inl KeyError
      else if \<not> list_all (\<lambda>r. is_datetime (getitem (columns df) col r)) (rows df)
      then Inl TypeError
      else
        let key = (\<lambda>r. stamp_key (getitem (columns df) col r));
            present = filter (\<lambda>r. getitem (columns df) col r \<noteq> NA) (rows df);
            absent = filter (\<lambda>r. getitem (columns df) col r = NA) (rows df);
            ordered = (if ascending then sort_key key present
                       else rev (sort_key key (rev present)))
        in Inr (df\<lparr>rows := ordered @ absent\<rparr>))"

text \<open>\<^verbatim>\<open>df[df[col] == text]\<close>: the rows whose cell is that text.\<close>

definition where_eq :: "dataframe \<Rightarrow> string \<Rightarrow> string \<Rightarrow> error + dataframe" where
  "where_eq df col s =
     (if col \<in> set (columns df)
      then Inr (df\<lparr>rows := filter (\<lambda>r. getitem (columns df) col r = Str s) (rows df)\<rparr>)
      else Inl KeyError)"

text \<open>\<^verbatim>\<open>df.dropna(subset=[col])\<close>: the rows whose cell is not absent.\<close>

definition dropna :: "dataframe \<Rightarrow> string \<Rightarrow> error + dataframe" where
  "dropna df col =
     (if col \<in> set (columns df)
      then Inr (df\<lparr>rows := filter (\<lambda>r. getitem (columns df) col r \<noteq> NA) (rows df)\<rparr>)
      else Inl KeyError)"

text \<open>\<^verbatim>\<open>series.iloc[i]\<close>: a negative index counts from the end; out of range raises.\<close>

definition iloc :: "'a list \<Rightarrow> int \<Rightarrow> error + 'a" where
  "iloc xs i =
     (if 0 \<le> i \<and> i < int (length xs) then Inr (xs ! nat i)
      else if i < 0 \<and> - int (length xs) \<le> i then Inr (xs ! nat (int (length xs) + i))
      else Inl IndexError)"

text \<open>
  Arithmetic needs numbers: subtracting texts raises \<^verbatim>\<open>TypeError\<close>.  (An absent
  weight never gets here: \<^verbatim>\<open>dropna\<close> has removed its row.)
\<close>

fun as_number :: "cell \<Rightarrow> error + rat" where
  "as_number (Num x) = Inr x"
| "as_number _ = Inl TypeError"

section \<open>The Workout History page\<close>

text \<open>
  The page as a function of the loaded workout table and the exercise picked in the
  select box.  It shows one of: the note that no workouts are logged; the warning
  that the exercise has no data; or the chart of weight by date (absent when no row
  has a weight), the history table, and the line of statistics (absent when no row
  has a weight).  \<open>plot_df\<close> is the table the chart and the statistics are read from.
\<close>

record progress =
  start_weight :: rat
  current_weight :: rat
  change :: rat
  pct_change :: rat

datatype history_page =
    NoWorkouts
  | NoExerciseData
  | History "dataframe option" dataframe "progress option"

definition filtered_of :: "dataframe \<Rightarrow> string \<Rightarrow> error + dataframe" where
  "filtered_of workouts_df selected_exercise =
     bind_err (where_eq workouts_df ''exercise'' selected_exercise) (\<lambda>filtered.
     sort_values filtered ''date'' True)"

definition plot_df_of :: "dataframe \<Rightarrow> string \<Rightarrow> error + dataframe" where
  "plot_df_of workouts_df selected_exercise =
     bind_err (filtered_of workouts_df selected_exercise) (\<lambda>filtered.
     dropna filtered ''weight'')"

definition stats_of :: "dataframe \<Rightarrow> error + progress" where
  "stats_of plot_df =
     bind_err (column plot_df ''weight'') (\<lambda>weights.
     bind_err (iloc weights 0) (\<lambda>first.
     bind_err (iloc weights (- 1)) (\<lambda>final.
     bind_err (as_number first) (\<lambda>start.
     bind_err (as_number final) (\<lambda>current.
     let delta = current - start in
     Inr \<lparr>start_weight = start, current_weight = current, change = delta,
          pct_change = (if start \<noteq> 0 then delta / start * 100 else 0)\<rparr>)))))"

definition workout_history :: "dataframe \<Rightarrow> string \<Rightarrow> error + history_page" where
  "workout_history workouts_df selected_exercise =
     (if df_empty workouts_df then Inr NoWorkouts
      else
        bind_err (filtered_of workouts_df selected_exercise) (\<lambda>filtered.
        if df_empty filtered then Inr NoExerciseData
        else
          bind_err (dropna filtered ''weight'') (\<lambda>plot_df.
          bind_err (if \<not> df_empty plot_df
                    then bind_err (select_columns plot_df [''date'', ''weight''])
                           (\<lambda>chart_df. Inr (Some chart_df))
                    else Inr None) (\<lambda>chart.
          bind_err (sort_values filtered ''date'' False) (\<lambda>table.
          bind_err (if \<not> df_empty plot_df
                    then bind_err (stats_of plot_df) (\<lambda>stats. Inr (Some stats))
                    else Inr None) (\<lambda>stats.
          Inr (History chart table stats)))))))"

text \<open>
  The statistics are printed with \<^verbatim>\<open>:.1f\<close>, and the averages below are rounded with
  \<^verbatim>\<open>round(1)\<close>: one decimal, a tie going to the even neighbour.
\<close>

definition round_half_even :: "rat \<Rightarrow> int" where
  "round_half_even x =
     (let n = \<lfloor>x\<rfloor>; r = x - of_int n
      in if r < 1 / 2 then n
         else if 1 / 2 < r then n + 1
         else if even n then n else n + 1)"

definition round1 :: "rat \<Rightarrow> rat" where
  "round1 x = of_int (round_half_even (x * 10)) / 10"

section \<open>The Nutrition Summary page\<close>

text \<open>
  \<^verbatim>\<open>groupby(key)[cols].mean()\<close>: one group per distinct key that is present, in
  ascending key order; rows whose key is absent belong to no group.  The mean of a
  column over a group skips absent cells and is absent when the group has no number in
  that column.  The columns averaged must be numeric: a text in one of them raises
  \<^verbatim>\<open>TypeError\<close>.  The keys are given row by row, beside the table.
\<close>

definition metric_cols :: "string list" where
  "metric_cols = [''calories'', ''protein'', ''carbs'', ''fat'', ''sugar'']"

fun is_numeric :: "cell \<Rightarrow> bool" where
  "is_numeric NA = True"
| "is_numeric (Num x) = True"
| "is_numeric _ = False"

fun numbers :: "cell list \<Rightarrow> rat list" where
  "numbers [] = []"
| "numbers (Num x # vs) = x # numbers vs"
| "numbers (v # vs) = numbers vs"

definition mean :: "cell list \<Rightarrow> cell" where
  "mean vs =
     (if numbers vs = [] then NA else Num (sum_list (numbers vs) / of_nat (length (numbers vs))))"

fun stamps :: "cell list \<Rightarrow> int list" where
  "stamps [] = []"
| "stamps (Stamp t # vs) = t # stamps vs"
| "stamps (v # vs) = stamps vs"

definition group_rows :: "cell list \<Rightarrow> cell list list \<Rightarrow> int \<Rightarrow> cell list list" where
  "group_rows keys rs k = map snd (filter (\<lambda>(key, r). key = Stamp k) (zip keys rs))"

definition groupby_mean ::
    "dataframe \<Rightarrow> cell list \<Rightarrow> string list \<Rightarrow> error + (int \<times> cell list) list" where
  "groupby_mean df keys cols =
     (if \<not> set cols \<subseteq> set (columns df) then Inl KeyError
      else if \<not> list_all (\<lambda>r. list_all (\<lambda>c. is_numeric (getitem (columns df) c r)) cols)
                   (rows df)
      then Inl TypeError
      else Inr (map (\<lambda>k. (k, map (\<lambda>c. mean (map (getitem (columns df) c)
                                                  (group_rows keys (rows df) k))) cols))
                    (sort (remdups (stamps keys)))))"

text \<open>\<^verbatim>\<open>.round(1)\<close> and \<^verbatim>\<open>.reset_index()\<close>, which makes the group key the first column.\<close>

fun round_cell :: "cell \<Rightarrow> cell" where
  "round_cell (Num x) = Num (round1 x)"
| "round_cell v = v"

definition round_1 :: "(int \<times> cell list) list \<Rightarrow> (int \<times> cell list) list" where
  "round_1 g = map (\<lambda>(k, vs). (k, map round_cell vs)) g"

definition reset_index :: "string \<Rightarrow> string list \<Rightarrow> (int \<times> cell list) list \<Rightarrow> dataframe" where
  "reset_index name cols g = \<lparr>columns = name # cols, rows = map (\<lambda>(k, vs). Stamp k # vs) g\<rparr>"

definition period_averages ::
    "dataframe \<Rightarrow> (int \<Rightarrow> int) \<Rightarrow> string \<Rightarrow> error + dataframe" where
  "period_averages df start name =
     bind_err (column df ''date'') (\<lambda>dates.
     bind_err (groupby_mean df (map (period_of start) dates) metric_cols) (\<lambda>means.
     sort_values (reset_index name metric_cols (round_1 means)) name False))"

text \<open>
  The page as a function of the loaded nutrition table: the note that there is no
  data, or the three tables it shows under Daily Totals, Weekly Averages and Monthly
  Averages.  \<open>dated\<close> is the page's working table \<^verbatim>\<open>df\<close> after its first three lines.
\<close>

datatype summary_page =
    NoNutrition
  | Summary dataframe dataframe dataframe

definition dated :: "date_parser \<Rightarrow> dataframe \<Rightarrow> error + dataframe" where
  "dated parse nutrition_df =
     bind_err (column nutrition_df ''date'') (\<lambda>vs.
     bind_err (to_datetime parse Raise vs) (\<lambda>ts.
     sort_values (setitem nutrition_df ''date'' ts) ''date'' True))"

definition daily_totals :: "date_parser \<Rightarrow> dataframe \<Rightarrow> error + dataframe" where
  "daily_totals parse nutrition_df =
     bind_err (dated parse nutrition_df) (\<lambda>df. sort_values df ''date'' False)"

definition weekly_averages :: "date_parser \<Rightarrow> dataframe \<Rightarrow> error + dataframe" where
  "weekly_averages parse nutrition_df =
     bind_err (dated parse nutrition_df) (\<lambda>df. period_averages df week_start ''week'')"

definition monthly_averages :: "date_parser \<Rightarrow> dataframe \<Rightarrow> error + dataframe" where
  "monthly_averages parse nutrition_df =
     bind_err (dated parse nutrition_df) (\<lambda>df. period_averages df month_start ''month'')"

definition nutrition_summary :: "date_parser \<Rightarrow> dataframe \<Rightarrow> error + summary_page" where
  "nutrition_summary parse nutrition_df =
     (if df_empty nutrition_df then Inr NoNutrition
      else
        bind_err (daily_totals parse nutrition_df) (\<lambda>daily.
        bind_err (weekly_averages parse nutrition_df) (\<lambda>weekly.
        bind_err (monthly_averages parse nutrition_df) (\<lambda>monthly.
        Inr (Summary daily weekly monthly)))))"

section \<open>The specification's words\<close>

text \<open>
  The history of an exercise as the specification describes it: the rows of the
  exercise, without those that have no weight, in ascending order of date.  Rows
  without a date come after the dated ones, in the order of the table.
\<close>

definition weighed_rows :: "dataframe \<Rightarrow> string \<Rightarrow> cell list list" where
  "weighed_rows df exercise =
     filter (\<lambda>r. getitem (columns df) ''weight'' r \<noteq> NA)
       (filter (\<lambda>r. getitem (columns df) ''exercise'' r = Str exercise) (rows df))"

definition dated_rows :: "dataframe \<Rightarrow> string \<Rightarrow> cell list list" where
  "dated_rows df exercise =
     sort_key (\<lambda>r. stamp_key (getitem (columns df) ''date'' r))
       (filter (\<lambda>r. getitem (columns df) ''date'' r \<noteq> NA) (weighed_rows df exercise))"

definition undated_rows :: "dataframe \<Rightarrow> string \<Rightarrow> cell list list" where
  "undated_rows df exercise =
     filter (\<lambda>r. getitem (columns df) ''date'' r = NA) (weighed_rows df exercise)"

definition history_rows :: "dataframe \<Rightarrow> string \<Rightarrow> cell list list" where
  "history_rows df exercise = dated_rows df exercise @ undated_rows df exercise"

text \<open>A workout table as the loader and \<^verbatim>\<open>ensure_date_col\<close> hand it to the page.\<close>

definition workout_table :: "dataframe \<Rightarrow> bool" where
  "workout_table df \<longleftrightarrow>
     well_formed df \<and> columns df = workout_cols \<and>
     list_all (\<lambda>r. is_datetime (getitem (columns df) ''date'' r)) (rows df)"

definition numeric_weights :: "dataframe \<Rightarrow> bool" where
  "numeric_weights df \<longleftrightarrow> list_all (\<lambda>r. is_numeric (getitem (columns df) ''weight'' r)) (rows df)"


text \<open>A log with an entry whose date could not be read, and one without any weight.\<close>

definition undated_log :: dataframe where
  "undated_log =
     \<lparr>columns = workout_cols,
      rows = [[Stamp (timestamp 2024 1 1), Str ''Bench'', Num 3, Num 10, Num 135, NA],
              [NA, Str ''Bench'', Num 3, Num 10, Num 140, NA],
              [Stamp (timestamp 2024 1 8), Str ''Bench'', Num 3, Num 10, Num 150, NA]]\<rparr>"

definition unweighed_log :: dataframe where
  "unweighed_log =
     \<lparr>columns = workout_cols,
      rows = [[Stamp (timestamp 2024 1 1), Str ''Plank'', Num 3, Num 1, NA, NA],
              [Stamp (timestamp 2024 1 2), Str ''Bench'', Num 3, Num 10, Num 135, NA]]\<rparr>"




















text \<open>
  Tables for the examples of loading and saving, and a codec that knows the texts of
  the numbers and of the date in them.
\<close>

definition partial_upload :: dataframe where
  "partial_upload =
     \<lparr>columns = [''date'', ''weight''], rows = [[Str ''2024-01-01'', Num 135]]\<rparr>"




section \<open>Properties of the loader\<close>

lemma bind_err_Inr [simp]: "bind_err (Inr x) f = f x"
  by (simp add: bind_err_def)

lemma bind_err_Inl [simp]: "bind_err (Inl e) f = Inl e"
  by (simp add: bind_err_def)

lemma map2_replicate: "map2 f rs (replicate (length rs) v) = map (\<lambda>r. f r v) rs"
  by (induction rs) auto

lemma setitem_none_new:
  "c \<notin> set (columns df) \<Longrightarrow>
   setitem_none df c = df\<lparr>columns := columns df @ [c], rows := map (\<lambda>r. r @ [NA]) (rows df)\<rparr>"
  by (simp add: setitem_none_def setitem_def map2_replicate)

lemma getitem_snoc:
  "length r = length cols \<Longrightarrow> k \<notin> set cols \<Longrightarrow>
   getitem (cols @ [k]) c (r @ [NA]) = getitem cols c r"
  by (auto simp: getitem_def map_add_def split: option.splits if_splits
      dest!: map_of_SomeD set_zip_leftD)

lemma well_formed_setitem_none:
  "well_formed df \<Longrightarrow> c \<notin> set (columns df) \<Longrightarrow> well_formed (setitem_none df c)"
  by (auto simp: setitem_none_new well_formed_def list_all_iff)

lemma getitem_rows_setitem_none:
  "well_formed df \<Longrightarrow> c \<notin> set (columns df) \<Longrightarrow>
   map (\<lambda>r. map (\<lambda>k. getitem (columns (setitem_none df c)) k r) cs) (rows (setitem_none df c))
   = map (\<lambda>r. map (\<lambda>k. getitem (columns df) k r) cs) (rows df)"
  by (auto simp: setitem_none_new well_formed_def list_all_iff getitem_snoc)

lemma backfill_keeps_columns: "set (columns df) \<subseteq> set (columns (backfill df cols))"
proof (induction cols arbitrary: df)
  case Nil
  show ?case by simp
next
  case (Cons c cols)
  show ?case
  proof (cases "c \<in> set (columns df)")
    case True
    then show ?thesis using Cons [of df] by simp
  next
    case False
    then show ?thesis using Cons [of "setitem_none df c"] by (auto simp: setitem_none_new)
  qed
qed

lemma columns_backfill: "set cols \<subseteq> set (columns (backfill df cols))"
proof (induction cols arbitrary: df)
  case Nil
  show ?case by simp
next
  case (Cons c cols)
  show ?case
  proof (cases "c \<in> set (columns df)")
    case True
    then show ?thesis
      using Cons [of df] backfill_keeps_columns [of df cols] by auto
  next
    case False
    then show ?thesis
      using Cons [of "setitem_none df c"] backfill_keeps_columns [of "setitem_none df c" cols]
      by (auto simp: setitem_none_new)
  qed
qed

lemma well_formed_backfill: "well_formed df \<Longrightarrow> well_formed (backfill df cols)"
  by (induction cols arbitrary: df) (auto simp: well_formed_setitem_none)

lemma getitem_rows_backfill:
  "well_formed df \<Longrightarrow>
   map (\<lambda>r. map (\<lambda>k. getitem (columns (backfill df cols)) k r) cs) (rows (backfill df cols))
   = map (\<lambda>r. map (\<lambda>k. getitem (columns df) k r) cs) (rows df)"
proof (induction cols arbitrary: df)
  case Nil
  then show ?case by simp
next
  case (Cons c cols)
  show ?case
  proof (cases "c \<in> set (columns df)")
    case True
    with Cons show ?thesis by simp
  next
    case False
    with Cons.prems have wf: "well_formed (setitem_none df c)"
      by (rule well_formed_setitem_none)
    from False have "backfill df (c # cols) = backfill (setitem_none df c) cols" by simp
    then show ?thesis
      using Cons.IH [OF wf] getitem_rows_setitem_none [OF Cons.prems False, of cs] by simp
  qed
qed


lemma rows_backfill_length: "length (rows (backfill df cols)) = length (rows df)"
  by (induction cols arbitrary: df) (auto simp: setitem_none_def setitem_def)

lemma coerce_eq:
  "well_formed df \<Longrightarrow>
   coerce df cols =
     Inr \<lparr>columns = cols, rows = map (\<lambda>r. map (\<lambda>c. getitem (columns df) c r) cols) (rows df)\<rparr>"
  using columns_backfill [of cols df] getitem_rows_backfill [of df cols cols]
  by (simp add: coerce_def select_columns_def)

lemma getitem_absent: "c \<notin> set cols \<Longrightarrow> getitem cols c r = NA"
  by (auto simp: getitem_def split: option.splits dest!: map_of_SomeD set_zip_leftD)


lemma getitem_nth:
  "distinct cols \<Longrightarrow> length r = length cols \<Longrightarrow> j < length cols \<Longrightarrow>
   getitem cols (cols ! j) r = r ! j"
proof -
  assume a: "distinct cols" "length r = length cols" "j < length cols"
  then have "(cols ! j, r ! j) \<in> set (zip cols r)"
    by (auto simp: set_zip)
  with a have "map_of (zip cols r) (cols ! j) = Some (r ! j)"
    by (simp add: map_of_is_SomeI [where xys = "zip cols r"])
  then show ?thesis by (simp add: getitem_def)
qed






text \<open>
  C5.  Coercing a table read from a file against a schema gives exactly the schema's
  columns in the schema's order and one row per source row; under a column the source
  has, every row keeps the source's value; under a column the source lacks, every row
  is absent; source columns outside the schema are gone.
\<close>

theorem coerce_schema:
  assumes "well_formed df"
  shows "coerce df cols =
           Inr \<lparr>columns = cols,
                rows = map (\<lambda>r. map (\<lambda>c. if c \<in> set (columns df)
                                          then getitem (columns df) c r else NA) cols)
                         (rows df)\<rparr>
         \<and> (\<forall>r \<in> set (rows df). \<forall>j < length (columns df).
               getitem (columns df) (columns df ! j) r = r ! j)"
proof -
  have "\<And>c r. (if c \<in> set (columns df) then getitem (columns df) c r else NA)
              = getitem (columns df) c r"
    by (simp add: getitem_absent)
  then have "coerce df cols =
      Inr \<lparr>columns = cols,
           rows = map (\<lambda>r. map (\<lambda>c. if c \<in> set (columns df)
                                     then getitem (columns df) c r else NA) cols) (rows df)\<rparr>"
    using coerce_eq [OF assms, of cols] by simp
  moreover have "\<forall>r \<in> set (rows df). \<forall>j < length (columns df).
      getitem (columns df) (columns df ! j) r = r ! j"
    using assms by (auto simp: well_formed_def list_all_iff getitem_nth)
  ultimately show ?thesis by blast
qed

theorem coerce_schema_witness:
  "well_formed partial_upload \<and>
   coerce partial_upload workout_cols =
     Inr \<lparr>columns = [''date'', ''exercise'', ''sets'', ''reps'', ''weight'', ''notes''],
          rows = [[Str ''2024-01-01'', NA, NA, NA, Num 135, NA]]\<rparr>"
proof -
  have wf: "well_formed partial_upload"
    by (simp add: well_formed_def partial_upload_def)
  show ?thesis
    using wf coerce_schema [OF wf, of workout_cols]
    by (simp add: partial_upload_def workout_cols_def getitem_def)
qed

text \<open>
  C6.  Loading from a path under which the file system holds no file raises nothing
  and returns the table with the schema's columns and no rows.
\<close>

theorem load_missing_file:
  "fs path = None \<Longrightarrow> load_csv cd fs path cols = Inr \<lparr>columns = cols, rows = []\<rparr>"
  by (simp add: load_csv_def)

theorem load_missing_file_witness:
  "\<forall>cd. Map.empty WORKOUTS_FILE = (None :: disk_file option) \<and>
        load_csv cd Map.empty WORKOUTS_FILE workout_cols
          = Inr \<lparr>columns = workout_cols, rows = []\<rparr>"
  using load_missing_file [of Map.empty WORKOUTS_FILE _ workout_cols] by simp








section \<open>Properties of the Workout History page\<close>

lemma sort_values_ok:
  assumes "col \<in> set (columns df)"
    "list_all (\<lambda>r. is_datetime (getitem (columns df) col r)) (rows df)"
  shows "sort_values df col asc =
     Inr (df\<lparr>rows := (if asc then sort_key (\<lambda>r. stamp_key (getitem (columns df) col r))
                              (filter (\<lambda>r. getitem (columns df) col r \<noteq> NA) (rows df))
                       else rev (sort_key (\<lambda>r. stamp_key (getitem (columns df) col r))
                              (rev (filter (\<lambda>r. getitem (columns df) col r \<noteq> NA) (rows df)))))
                      @ filter (\<lambda>r. getitem (columns df) col r = NA) (rows df)\<rparr>)"
  using assms by (simp add: sort_values_def Let_def)

lemma filtered_of_eq:
  assumes "workout_table df"
  shows "filtered_of df sel =
     Inr (df\<lparr>rows :=
        sort_key (\<lambda>r. stamp_key (getitem (columns df) ''date'' r))
          (filter (\<lambda>r. getitem (columns df) ''date'' r \<noteq> NA)
             (filter (\<lambda>r. getitem (columns df) ''exercise'' r = Str sel) (rows df)))
        @ filter (\<lambda>r. getitem (columns df) ''date'' r = NA)
             (filter (\<lambda>r. getitem (columns df) ''exercise'' r = Str sel) (rows df))\<rparr>)"
proof -
  let ?M = "df\<lparr>rows := filter (\<lambda>r. getitem (columns df) ''exercise'' r = Str sel) (rows df)\<rparr>"
  have cols: "columns df = workout_cols" using assms by (simp add: workout_table_def)
  have w: "where_eq df ''exercise'' sel = Inr ?M"
    by (simp add: where_eq_def cols workout_cols_def)
  have d: "''date'' \<in> set (columns ?M)" by (simp add: cols workout_cols_def)
  have dt: "list_all (\<lambda>r. is_datetime (getitem (columns ?M) ''date'' r)) (rows ?M)"
    using assms by (auto simp: workout_table_def list_all_iff)
  show ?thesis
    unfolding filtered_of_def w bind_err_Inr sort_values_ok [OF d dt] by simp
qed

lemma plot_df_of_eq:
  assumes "workout_table df"
  shows "plot_df_of df sel = Inr (df\<lparr>rows := history_rows df sel\<rparr>)"
proof -
  have cols: "columns df = workout_cols" using assms by (simp add: workout_table_def)
  have w: "''weight'' \<in> set (columns df)" by (simp add: cols workout_cols_def)
  have swap: "\<And>P Q (xs :: cell list list). filter P (filter Q xs) = filter Q (filter P xs)"
    by (simp add: conj_commute)
  show ?thesis
    unfolding plot_df_of_def filtered_of_eq [OF assms] bind_err_Inr
    using w
    apply (simp add: dropna_def history_rows_def dated_rows_def undated_rows_def
        weighed_rows_def filter_sort del: filter_filter)
    apply (simp add: swap [of "\<lambda>r. getitem (columns df) ''weight'' r \<noteq> NA"] del: filter_filter)
    done
qed


lemma iloc_first: "xs \<noteq> [] \<Longrightarrow> iloc xs 0 = Inr (hd xs)"
  by (cases xs) (simp_all add: iloc_def)

lemma iloc_last: "xs \<noteq> [] \<Longrightarrow> iloc xs (- 1) = Inr (last xs)"
proof -
  assume ne: "xs \<noteq> []"
  then have "nat (int (length xs) + - 1) = length xs - 1"
    by (cases xs) simp_all
  moreover from ne have "Suc 0 \<le> length xs"
    by (cases xs) simp_all
  ultimately show ?thesis
    using ne by (simp add: iloc_def last_conv_nth)
qed

lemma iloc_no_index_error: "xs \<noteq> [] \<Longrightarrow> iloc xs 0 \<noteq> Inl e \<and> iloc xs (- 1) \<noteq> Inl e"
  by (simp add: iloc_first iloc_last)

lemma stats_of_eq:
  assumes "''weight'' \<in> set (columns P)" "rows P \<noteq> []"
    "getitem (columns P) ''weight'' (hd (rows P)) = Num a"
    "getitem (columns P) ''weight'' (last (rows P)) = Num b"
  shows "stats_of P = Inr \<lparr>start_weight = a, current_weight = b, change = b - a,
           pct_change = (if a \<noteq> 0 then (b - a) / a * 100 else 0)\<rparr>"
  using assms
  by (simp add: stats_of_def column_def iloc_first iloc_last hd_map last_map Let_def)

lemma stats_of_no_index_error:
  assumes "rows P \<noteq> []"
  shows "stats_of P \<noteq> Inl IndexError"
proof (cases "''weight'' \<in> set (columns P)")
  case False
  then show ?thesis by (simp add: stats_of_def column_def)
next
  case True
  let ?ws = "map (getitem (columns P) ''weight'') (rows P)"
  have ne: "?ws \<noteq> []" using assms by simp
  show ?thesis
    using True
    by (cases "as_number (hd ?ws)"; cases "as_number (last ?ws)"; cases "hd ?ws"; cases "last ?ws")
       (simp_all add: stats_of_def column_def iloc_first [OF ne] iloc_last [OF ne] Let_def
          del: hd_map last_map)
qed


lemma bind_err_assoc:
  "bind_err (bind_err m f) g = bind_err m (\<lambda>x. bind_err (f x) g)"
  by (cases m) simp_all

lemma partition_empty:
  "sort_key f (filter P xs) @ filter (\<lambda>x. \<not> P x) xs = [] \<longleftrightarrow> xs = []"
proof
  assume "sort_key f (filter P xs) @ filter (\<lambda>x. \<not> P x) xs = []"
  then have "filter P xs = []" "filter (\<lambda>x. \<not> P x) xs = []"
    by (simp_all add: sort_key_def [symmetric]) (metis length_0_conv length_sort)
  then show "xs = []"
    by (metis filter_empty_conv neq_Nil_conv list.set_intros(1))
qed simp

lemma workout_history_cases:
  assumes "workout_table df"
  shows "\<exists>C T. workout_history df sel =
    (if rows df = [] then Inr NoWorkouts
     else if filter (\<lambda>r. getitem (columns df) ''exercise'' r = Str sel) (rows df) = []
     then Inr NoExerciseData
     else if history_rows df sel = [] then Inr (History None T None)
     else bind_err (stats_of (df\<lparr>rows := history_rows df sel\<rparr>))
            (\<lambda>st. Inr (History (Some C) T (Some st))))"
proof -
  let ?cols = "columns df"
  let ?M = "filter (\<lambda>r. getitem ?cols ''exercise'' r = Str sel) (rows df)"
  let ?FR = "sort_key (\<lambda>r. stamp_key (getitem ?cols ''date'' r))
               (filter (\<lambda>r. getitem ?cols ''date'' r \<noteq> NA) ?M)
             @ filter (\<lambda>r. getitem ?cols ''date'' r = NA) ?M"
  let ?F = "df\<lparr>rows := ?FR\<rparr>"
  let ?P = "df\<lparr>rows := history_rows df sel\<rparr>"
  have cols: "?cols = workout_cols" using assms by (simp add: workout_table_def)
  have ne_cols: "?cols \<noteq> []" by (simp add: cols workout_cols_def)
  have fo: "filtered_of df sel = Inr ?F" by (rule filtered_of_eq [OF assms])
  have "dropna ?F ''weight'' = plot_df_of df sel"
    by (simp add: plot_df_of_def fo)
  then have dn: "dropna ?F ''weight'' = Inr ?P"
    by (simp add: plot_df_of_eq [OF assms])
  have FR_empty: "?FR = [] \<longleftrightarrow> ?M = []"
    using partition_empty [of "\<lambda>r. stamp_key (getitem ?cols ''date'' r)"
        "\<lambda>r. getitem ?cols ''date'' r \<noteq> NA" ?M] by simp
  have d: "''date'' \<in> set (columns ?F)" by (simp add: cols workout_cols_def)
  have "set ?FR \<subseteq> set (rows df)" by auto
  then have dt: "list_all (\<lambda>r. is_datetime (getitem (columns ?F) ''date'' r)) (rows ?F)"
    using assms by (auto simp: workout_table_def list_all_iff)
  obtain T where tb: "sort_values ?F ''date'' False = Inr T"
    using sort_values_ok [OF d dt, of False] by simp
  obtain C where ch: "select_columns ?P [''date'', ''weight''] = Inr C"
    by (simp add: select_columns_def cols workout_cols_def)
  have "workout_history df sel =
    (if rows df = [] then Inr NoWorkouts
     else if ?M = [] then Inr NoExerciseData
     else if history_rows df sel = [] then Inr (History None T None)
     else bind_err (stats_of ?P) (\<lambda>st. Inr (History (Some C) T (Some st))))"
    unfolding workout_history_def fo bind_err_Inr dn tb ch
    using ne_cols FR_empty by (simp add: df_empty_def bind_err_assoc)
  then show ?thesis by blast
qed

lemma weighed_rows_weight:
  "r \<in> set (weighed_rows df e) \<Longrightarrow>
   r \<in> set (rows df) \<and> getitem (columns df) ''weight'' r \<noteq> NA
   \<and> getitem (columns df) ''exercise'' r = Str e"
  by (simp add: weighed_rows_def)

lemma set_history_rows: "set (history_rows df e) = set (weighed_rows df e)"
  by (auto simp: history_rows_def dated_rows_def undated_rows_def)

lemma numeric_present: "is_numeric v \<Longrightarrow> v \<noteq> NA \<Longrightarrow> \<exists>x. v = Num x"
  by (cases v) simp_all

lemma history_row_weight:
  assumes "numeric_weights df" "r \<in> set (history_rows df e)"
  shows "\<exists>x. getitem (columns df) ''weight'' r = Num x"
proof -
  from assms(2) have "r \<in> set (rows df)" "getitem (columns df) ''weight'' r \<noteq> NA"
    using weighed_rows_weight [of r df e] by (simp_all add: set_history_rows)
  with assms(1) show ?thesis
    by (auto simp: numeric_weights_def list_all_iff intro: numeric_present)
qed

lemma history_progress:
  assumes "workout_table df" "numeric_weights df" "history_rows df e \<noteq> []"
  shows "\<exists>chart table st.
      workout_history df e = Inr (History (Some chart) table (Some st))
    \<and> Num (start_weight st) = getitem (columns df) ''weight'' (hd (history_rows df e))
    \<and> Num (current_weight st) = getitem (columns df) ''weight'' (last (history_rows df e))
    \<and> change st = current_weight st - start_weight st
    \<and> pct_change st = (if start_weight st \<noteq> 0 then change st / start_weight st * 100 else 0)"
proof -
  let ?H = "history_rows df e"
  let ?P = "df\<lparr>rows := ?H\<rparr>"
  have "hd ?H \<in> set ?H" "last ?H \<in> set ?H"
    using assms(3) by simp_all
  then obtain a b where a: "getitem (columns df) ''weight'' (hd ?H) = Num a"
    and b: "getitem (columns df) ''weight'' (last ?H) = Num b"
    using history_row_weight [OF assms(2), of _ e] by blast
  have w: "''weight'' \<in> set (columns ?P)"
    using assms(1) by (simp add: workout_table_def workout_cols_def)
  have st: "stats_of ?P = Inr \<lparr>start_weight = a, current_weight = b, change = b - a,
           pct_change = (if a \<noteq> 0 then (b - a) / a * 100 else 0)\<rparr>"
    using stats_of_eq [OF w, of a b] assms(3) a b by simp
  have weighed: "set ?H = set (weighed_rows df e)" by (rule set_history_rows)
  have "hd ?H \<in> set (weighed_rows df e)"
    using assms(3) weighed hd_in_set by blast
  then have m: "hd ?H \<in> set (rows df)" "getitem (columns df) ''exercise'' (hd ?H) = Str e"
    using weighed_rows_weight [of "hd ?H" df e] by simp_all
  then have ne1: "filter (\<lambda>r. getitem (columns df) ''exercise'' r = Str e) (rows df) \<noteq> []"
    by (auto simp: filter_empty_conv)
  have ne2: "rows df \<noteq> []"
    using m(1) by auto
  let ?S = "\<lparr>start_weight = a, current_weight = b, change = b - a,
           pct_change = (if a \<noteq> 0 then (b - a) / a * 100 else 0)\<rparr>"
  obtain C T where eq: "workout_history df e =
    (if rows df = [] then Inr NoWorkouts
     else if filter (\<lambda>r. getitem (columns df) ''exercise'' r = Str e) (rows df) = []
     then Inr NoExerciseData
     else if history_rows df e = [] then Inr (History None T None)
     else bind_err (stats_of (df\<lparr>rows := history_rows df e\<rparr>))
            (\<lambda>st. Inr (History (Some C) T (Some st))))"
    using workout_history_cases [OF assms(1), of e] by blast
  have res: "workout_history df e = Inr (History (Some C) T (Some ?S))"
    by (simp only: eq ne1 ne2 assms(3) st if_False bind_err_Inr)
  show ?thesis
    apply (rule exI [of _ C], rule exI [of _ T], rule exI [of _ ?S])
    using res a b by simp
qed

lemma getitem_workout:
  "getitem workout_cols ''date'' [a, b, c, d, e, f] = a"
  "getitem workout_cols ''exercise'' [a, b, c, d, e, f] = b"
  "getitem workout_cols ''weight'' [a, b, c, d, e, f] = e"
  by (simp_all add: getitem_def workout_cols_def)

lemma stamps_2024:
  "timestamp 2024 1 1 = 1704067200000000000"
  "timestamp 2024 1 2 = 1704153600000000000"
  "timestamp 2024 1 8 = 1704672000000000000"
  "timestamp 2024 1 15 = 1705276800000000000"
  by (simp_all add: timestamp_def days_from_civil_def ns_per_day_def Let_def)


lemma history_undated_log:
  "history_rows undated_log ''Bench'' =
     [[Stamp (timestamp 2024 1 1), Str ''Bench'', Num 3, Num 10, Num 135, NA],
      [Stamp (timestamp 2024 1 8), Str ''Bench'', Num 3, Num 10, Num 150, NA],
      [NA, Str ''Bench'', Num 3, Num 10, Num 140, NA]]"
  by (simp add: history_rows_def dated_rows_def undated_rows_def weighed_rows_def undated_log_def
      getitem_workout stamps_2024)



lemma bind_err_eq_Inl:
  "bind_err m f = Inl e \<longleftrightarrow> m = Inl e \<or> (\<exists>x. m = Inr x \<and> f x = Inl e)"
  by (cases m) simp_all

lemma no_index_error:
  "where_eq df c s \<noteq> Inl IndexError"
  "sort_values df c asc \<noteq> Inl IndexError"
  "dropna df c \<noteq> Inl IndexError"
  "select_columns df cs \<noteq> Inl IndexError"
  by (simp_all add: where_eq_def sort_values_def dropna_def select_columns_def Let_def)

lemma dropna_nonempty: "dropna F c = Inr P \<Longrightarrow> \<not> df_empty P \<Longrightarrow> rows P \<noteq> []"
  by (simp add: df_empty_def)

lemma workout_history_no_index_error: "workout_history df e \<noteq> Inl IndexError"
proof
  assume "workout_history df e = Inl IndexError"
  then obtain F P where "dropna F ''weight'' = Inr P" "\<not> df_empty P"
      "stats_of P = Inl IndexError"
    by (auto simp: workout_history_def filtered_of_def bind_err_eq_Inl no_index_error
        split: if_splits)
  then show False
    using stats_of_no_index_error [of P] dropna_nonempty by blast
qed

lemma history_empty_page:
  assumes "workout_table df" "history_rows df e = []"
  shows "workout_history df e = Inr NoWorkouts \<or> workout_history df e = Inr NoExerciseData
       \<or> (\<exists>table. workout_history df e = Inr (History None table None))"
proof -
  obtain C T where eq: "workout_history df e =
    (if rows df = [] then Inr NoWorkouts
     else if filter (\<lambda>r. getitem (columns df) ''exercise'' r = Str e) (rows df) = []
     then Inr NoExerciseData
     else if history_rows df e = [] then Inr (History None T None)
     else bind_err (stats_of (df\<lparr>rows := history_rows df e\<rparr>))
            (\<lambda>st. Inr (History (Some C) T (Some st))))"
    using workout_history_cases [OF assms(1), of e] by blast
  show ?thesis
    unfolding eq using assms(2) by simp
qed



text \<open>
  C8.  The page never ends in an out-of-range access, whatever the table and the
  exercise.  When no row of the exercise with a weight is left, it reports that there
  is no data: that no workouts are logged, that the exercise has no data, or the
  history table alone, without chart and without statistics.
\<close>

theorem empty_history_guarded:
  "workout_history df exercise \<noteq> Inl IndexError \<and>
   (workout_table df \<and> history_rows df exercise = [] \<longrightarrow>
      workout_history df exercise = Inr NoWorkouts
    \<or> workout_history df exercise = Inr NoExerciseData
    \<or> (\<exists>table. workout_history df exercise = Inr (History None table None)))"
  using workout_history_no_index_error [of df exercise] history_empty_page [of df exercise]
  by blast

theorem empty_history_guarded_witness:
  "workout_table unweighed_log \<and> history_rows unweighed_log ''Plank'' = [] \<and>
   workout_history unweighed_log ''Plank'' \<noteq> Inl IndexError \<and>
   workout_history unweighed_log ''Plank'' \<noteq> Inr NoWorkouts \<and>
   workout_history unweighed_log ''Plank'' \<noteq> Inr NoExerciseData \<and>
   (\<exists>table. workout_history unweighed_log ''Plank'' = Inr (History None table None))"
proof -
  have wt: "workout_table unweighed_log"
    by (simp add: workout_table_def well_formed_def unweighed_log_def getitem_workout)
       (simp add: workout_cols_def)
  have em: "history_rows unweighed_log ''Plank'' = []"
    by (simp add: history_rows_def dated_rows_def undated_rows_def weighed_rows_def
        unweighed_log_def getitem_workout)
  obtain C T where eq: "workout_history unweighed_log ''Plank'' =
    (if rows unweighed_log = [] then Inr NoWorkouts
     else if filter (\<lambda>r. getitem (columns unweighed_log) ''exercise'' r = Str ''Plank'')
               (rows unweighed_log) = []
     then Inr NoExerciseData
     else if history_rows unweighed_log ''Plank'' = [] then Inr (History None T None)
     else bind_err (stats_of (unweighed_log\<lparr>rows := history_rows unweighed_log ''Plank''\<rparr>))
            (\<lambda>st. Inr (History (Some C) T (Some st))))"
    using workout_history_cases [OF wt, of "''Plank''"] by blast
  have page: "workout_history unweighed_log ''Plank'' = Inr (History None T None)"
    unfolding eq em by (simp add: unweighed_log_def getitem_workout)
  show ?thesis
    using wt em page empty_history_guarded [of unweighed_log "''Plank''"] by simp
qed

text \<open>
  C10.  Rows of the exercise that have a weight but no date are not dropped: they stand
  in the history after all dated rows, in the order of the table.  When there is such a
  row, the last of them is the last entry, so its weight is the current weight, and
  the change and the percent change are computed from it.
\<close>

theorem undated_rows_last:
  assumes "workout_table df" "numeric_weights df" "undated_rows df exercise \<noteq> []"
  shows "\<exists>chart table st.
      workout_history df exercise = Inr (History (Some chart) table (Some st))
    \<and> plot_df_of df exercise = Inr (df\<lparr>rows := dated_rows df exercise @ undated_rows df exercise\<rparr>)
    \<and> undated_rows df exercise =
        filter (\<lambda>r. getitem (columns df) ''exercise'' r = Str exercise
                  \<and> getitem (columns df) ''weight'' r \<noteq> NA
                  \<and> getitem (columns df) ''date'' r = NA) (rows df)
    \<and> Num (current_weight st) = getitem (columns df) ''weight'' (last (undated_rows df exercise))
    \<and> change st = current_weight st - start_weight st
    \<and> pct_change st = (if start_weight st \<noteq> 0 then change st / start_weight st * 100 else 0)"
proof -
  have ne: "history_rows df exercise \<noteq> []"
    using assms(3) by (simp add: history_rows_def)
  have l: "last (history_rows df exercise) = last (undated_rows df exercise)"
    using assms(3) by (simp add: history_rows_def)
  have u: "undated_rows df exercise =
        filter (\<lambda>r. getitem (columns df) ''exercise'' r = Str exercise
                  \<and> getitem (columns df) ''weight'' r \<noteq> NA
                  \<and> getitem (columns df) ''date'' r = NA) (rows df)"
    by (simp add: undated_rows_def weighed_rows_def conj_commute conj_left_commute)
  have p: "plot_df_of df exercise =
      Inr (df\<lparr>rows := dated_rows df exercise @ undated_rows df exercise\<rparr>)"
    using plot_df_of_eq [OF assms(1), of exercise] by (simp add: history_rows_def)
  show ?thesis
    using history_progress [OF assms(1,2) ne] p u unfolding l by blast
qed

theorem undated_rows_last_witness:
  "workout_table undated_log \<and> numeric_weights undated_log \<and>
   undated_rows undated_log ''Bench'' \<noteq> [] \<and>
   (\<exists>chart table st.
      workout_history undated_log ''Bench'' = Inr (History (Some chart) table (Some st))
    \<and> plot_df_of undated_log ''Bench'' =
        Inr (undated_log\<lparr>rows :=
          [[Stamp (timestamp 2024 1 1), Str ''Bench'', Num 3, Num 10, Num 135, NA],
           [Stamp (timestamp 2024 1 8), Str ''Bench'', Num 3, Num 10, Num 150, NA],
           [NA, Str ''Bench'', Num 3, Num 10, Num 140, NA]]\<rparr>)
    \<and> current_weight st = 140)"
proof -
  have wt: "workout_table undated_log"
    by (simp add: workout_table_def well_formed_def undated_log_def getitem_workout)
       (simp add: workout_cols_def)
  have nw: "numeric_weights undated_log"
    by (simp add: numeric_weights_def undated_log_def getitem_workout)
  have un: "undated_rows undated_log ''Bench'' = [[NA, Str ''Bench'', Num 3, Num 10, Num 140, NA]]"
    by (simp add: undated_rows_def weighed_rows_def undated_log_def getitem_workout)
  then have ne: "undated_rows undated_log ''Bench'' \<noteq> []" by simp
  obtain chart table st where
    page: "workout_history undated_log ''Bench'' = Inr (History (Some chart) table (Some st))"
    and pl: "plot_df_of undated_log ''Bench'' =
        Inr (undated_log\<lparr>rows := dated_rows undated_log ''Bench'' @ undated_rows undated_log ''Bench''\<rparr>)"
    and c: "Num (current_weight st) =
        getitem (columns undated_log) ''weight'' (last (undated_rows undated_log ''Bench''))"
    using undated_rows_last [OF wt nw ne] by blast
  have c': "current_weight st = 140"
    using c unfolding un by (simp add: undated_log_def getitem_workout)
  have "dated_rows undated_log ''Bench'' @ undated_rows undated_log ''Bench'' =
          [[Stamp (timestamp 2024 1 1), Str ''Bench'', Num 3, Num 10, Num 135, NA],
           [Stamp (timestamp 2024 1 8), Str ''Bench'', Num 3, Num 10, Num 150, NA],
           [NA, Str ''Bench'', Num 3, Num 10, Num 140, NA]]"
    using history_undated_log by (simp add: history_rows_def)
  with pl have pl': "plot_df_of undated_log ''Bench'' =
        Inr (undated_log\<lparr>rows :=
          [[Stamp (timestamp 2024 1 1), Str ''Bench'', Num 3, Num 10, Num 135, NA],
           [Stamp (timestamp 2024 1 8), Str ''Bench'', Num 3, Num 10, Num 150, NA],
           [NA, Str ''Bench'', Num 3, Num 10, Num 140, NA]]\<rparr>)"
    by simp
  from wt nw ne page pl' c' show ?thesis by blast
qed

section \<open>Properties of the Nutrition Summary page and of date normalisation\<close>











lemma numbers_concat: "numbers vs = concat (map (\<lambda>v. case v of Num x \<Rightarrow> [x] | _ \<Rightarrow> []) vs)"
  by (induction vs rule: numbers.induct) simp_all





















lemma length_set_cell [simp]: "length (set_cell cols c v r) = length r"
  by (induction cols c v r rule: set_cell.induct) auto
















lemma mean_present: "mean vs = mean (filter (\<lambda>v. v \<noteq> NA) vs)"
proof -
  have "numbers (filter (\<lambda>v. v \<noteq> NA) vs) = numbers vs"
    by (induction vs rule: numbers.induct) simp_all
  then show ?thesis by (simp add: mean_def)
qed


























section \<open>The round trip through a file\<close>









end
